theory Spec2Isabelle
  imports Complex_Main
begin

section \<open>ATEX zone calculation (app.py): the embedding\<close>

text \<open>
  The program is one Streamlit script. Its numbers are Python floats; they are modelled
  as exact rationals (\<open>rat\<close>), the one non-finite float of the script,
  \<^verbatim>\<open>float("inf")\<close> in the radius table, by a constructor of its own. Comparisons
  and the table lookup are exact on floats as well; products and \<^verbatim>\<open>round\<close> are the
  exact ones here, so a statement about a rounded product is a statement about the
  arithmetic the script asks for, not about binary rounding error.

  Python strings are byte lists in UTF-8: a Turkish letter is written by its two bytes.
  Equality of strings, the only operation the script uses on them, is the same on both.
\<close>

subsection \<open>Python values, dictionaries and exceptions\<close>

datatype pyval = Str string | Num rat

text \<open>
  The exceptions the modelled statements can raise. \<open>IndexError\<close> is what
  \<^verbatim>\<open>.iloc[0]\<close> raises on an empty selection (the specification's NotFoundError),
  \<open>ZeroDivisionError\<close> what \<^verbatim>\<open>/\<close> raises on a zero divisor (its
  DivideByZeroError). \<open>ExternalError\<close> stands for any exception of a collaborator
  library (fpdf, tempfile, open, streamlit, os).
\<close>

datatype error = KeyError string | TypeError | ZeroDivisionError | IndexError | ExternalError

text \<open>A dict keeps its items in insertion order and holds a key once.\<close>

type_synonym pydict = "(string \<times> pyval) list"

definition getitem :: "pydict \<Rightarrow> string \<Rightarrow> error + pyval" where
  "getitem d k = (case map_of d k of None \<Rightarrow> Inl (KeyError k) | Some v \<Rightarrow> Inr v)"

fun setitem :: "pydict \<Rightarrow> string \<Rightarrow> pyval \<Rightarrow> pydict" where
  "setitem [] k v = [(k, v)]"
| "setitem ((k', v') # d) k v =
     (if k' = k then (k', v) # d else (k', v') # setitem d k v)"

text \<open>\<^verbatim>\<open>{**a, **b}\<close>: a copy of \<open>a\<close>, then every item of \<open>b\<close> stored in order.\<close>

definition dict_merge :: "pydict \<Rightarrow> pydict \<Rightarrow> pydict" where
  "dict_merge a b = fold (\<lambda>(k, v) d. setitem d k v) b a"

definition bind :: "error + 'a \<Rightarrow> ('a \<Rightarrow> error + 'b) \<Rightarrow> error + 'b" where
  "bind m f = (case m of Inl e \<Rightarrow> Inl e | Inr x \<Rightarrow> f x)"

text \<open>\<^verbatim>\<open>a / b\<close>, \<^verbatim>\<open>a < c\<close> and \<^verbatim>\<open>a > c\<close> on values: numbers only.\<close>

fun py_truediv :: "pyval \<Rightarrow> pyval \<Rightarrow> error + rat" where
  "py_truediv (Num a) (Num b) = (if b = 0 then Inl ZeroDivisionError else Inr (a / b))"
| "py_truediv _ _ = Inl TypeError"

fun py_lt :: "pyval \<Rightarrow> rat \<Rightarrow> error + bool" where
  "py_lt (Num a) c = Inr (a < c)"
| "py_lt (Str _) c = Inl TypeError"

fun py_gt :: "pyval \<Rightarrow> rat \<Rightarrow> error + bool" where
  "py_gt (Num a) c = Inr (a > c)"
| "py_gt (Str _) c = Inl TypeError"

text \<open>
  \<^verbatim>\<open>round(x, n)\<close>: the multiple of \<open>10\<^sup>-\<^sup>n\<close> nearest to \<open>x\<close>, a tie going to
  the even one.
\<close>

definition round_half_even :: "rat \<Rightarrow> int" where
  "round_half_even x =
     (let f = \<lfloor>x\<rfloor>; d = x - of_int f in
      if d < 1 / 2 then f else if d > 1 / 2 then f + 1 else if even f then f else f + 1)"

definition py_round :: "rat \<Rightarrow> nat \<Rightarrow> rat" where
  "py_round x n = of_int (round_half_even (x * 10 ^ n)) / 10 ^ n"

subsection \<open>The radius table and its lookup (lines 32-44)\<close>

datatype limit = Finite rat | Infinity

fun le_limit :: "rat \<Rightarrow> limit \<Rightarrow> bool" where
  "le_limit D (Finite t) = (D \<le> t)"
| "le_limit D Infinity = True"

record table_row =
  D_max :: limit
  radius :: rat

definition ZONE_RADIUS_TABLE :: "table_row list" where
  "ZONE_RADIUS_TABLE =
     [\<lparr>D_max = Finite (1 / 100), radius = 1 / 2\<rparr>,
      \<lparr>D_max = Finite (1 / 10), radius = 1\<rparr>,
      \<lparr>D_max = Finite 1, radius = 3\<rparr>,
      \<lparr>D_max = Finite 10, radius = 5\<rparr>,
      \<lparr>D_max = Infinity, radius = 8\<rparr>]"

text \<open>The \<^verbatim>\<open>for\<close> loop of \<^verbatim>\<open>get_zone_radius\<close> over the rows still to visit.\<close>

fun get_zone_radius_loop :: "table_row list \<Rightarrow> rat \<Rightarrow> rat" where
  "get_zone_radius_loop [] D = 1 / 2"
| "get_zone_radius_loop (r # rest) D =
     (if le_limit D (D_max r) then radius r else get_zone_radius_loop rest D)"

definition get_zone_radius :: "rat \<Rightarrow> rat" where
  "get_zone_radius D = get_zone_radius_loop ZONE_RADIUS_TABLE D"

subsection \<open>Dictionary keys and option strings\<close>

text \<open>The keys of a scenario dict (lines 66-80), in the order of the dict literal.\<close>

definition key_Senaryo :: string where "key_Senaryo = ''Senaryo''"
definition key_Gaz :: string where "key_Gaz = ''Gaz''"
definition key_Grup :: string where "key_Grup = ''Grup''"
definition key_LEL :: string where "key_LEL = ''LEL''"
definition key_Kacak_Tipi :: string where
  "key_Kacak_Tipi = ''Ka'' @ [CHR 0xC3, CHR 0xA7] @ ''ak Tipi''"
definition key_Kacak_Debisi :: string where
  "key_Kacak_Debisi = ''Ka'' @ [CHR 0xC3, CHR 0xA7] @ ''ak Debisi''"
definition key_Kacak_Suresi :: string where
  "key_Kacak_Suresi = ''Ka'' @ [CHR 0xC3, CHR 0xA7] @ ''ak S'' @ [CHR 0xC3, CHR 0xBC] @ ''resi''"
definition key_Havalandirma_Debisi :: string where
  "key_Havalandirma_Debisi = ''Havaland'' @ [CHR 0xC4, CHR 0xB1] @ ''rma Debisi''"
definition key_Havalandirma_Tipi :: string where
  "key_Havalandirma_Tipi = ''Havaland'' @ [CHR 0xC4, CHR 0xB1] @ ''rma Tipi''"
definition key_Hacim :: string where "key_Hacim = ''Hacim''"
definition key_Sicaklik :: string where
  "key_Sicaklik = ''S'' @ [CHR 0xC4, CHR 0xB1] @ ''cakl'' @ [CHR 0xC4, CHR 0xB1] @ ''k''"
definition key_Basinc :: string where
  "key_Basinc = ''Bas'' @ [CHR 0xC4, CHR 0xB1] @ ''n'' @ [CHR 0xC3, CHR 0xA7]"
definition key_Not :: string where "key_Not = ''Not''"

text \<open>The keys of a result dict (lines 115-120).\<close>

definition key_Zone0 :: string where
  "key_Zone0 = ''Zone 0 Yar'' @ [CHR 0xC4, CHR 0xB1, CHR 0xC3, CHR 0xA7] @ ''ap''
     @ [CHR 0xC4, CHR 0xB1] @ '' (m)''"
definition key_Zone1 :: string where
  "key_Zone1 = ''Zone 1 Yar'' @ [CHR 0xC4, CHR 0xB1, CHR 0xC3, CHR 0xA7] @ ''ap''
     @ [CHR 0xC4, CHR 0xB1] @ '' (m)''"
definition key_Zone2 :: string where
  "key_Zone2 = ''Zone 2 Yar'' @ [CHR 0xC4, CHR 0xB1, CHR 0xC3, CHR 0xA7] @ ''ap''
     @ [CHR 0xC4, CHR 0xB1] @ '' (m)''"
definition key_Seyrelme :: string where
  "key_Seyrelme = ''Seyrelme Fakt'' @ [CHR 0xC3, CHR 0xB6] @ ''r'' @ [CHR 0xC3, CHR 0xBC]
     @ '' (D)''"

text \<open>
  The options of the two select boxes (lines 51 and 56): leak type continuous, primary,
  secondary; ventilation natural, mechanical.
\<close>

definition Surekli :: string where "Surekli = ''S'' @ [CHR 0xC3, CHR 0xBC] @ ''rekli''"
definition Birincil :: string where "Birincil = ''Birincil''"
definition Ikincil :: string where "Ikincil = [CHR 0xC4, CHR 0xB0] @ ''kincil''"
definition Dogal :: string where "Dogal = ''Do'' @ [CHR 0xC4, CHR 0x9F] @ ''al''"
definition Mekanik :: string where "Mekanik = ''Mekanik''"

subsection \<open>The gas table, the form and the submit handler (lines 20-25, 47-81)\<close>

text \<open>
  \<^verbatim>\<open>gazlar.csv\<close> is not part of the sources: the table is a parameter, a list of rows
  with the three columns the script reads.
\<close>

record gas =
  isim :: string
  grup :: string
  LEL :: rat

text \<open>The values the form's widgets hold when the script runs.\<close>

record form =
  gaz_adi :: string
  leak_type :: string
  leak_rate :: rat
  leak_duration :: rat
  ventilation_rate :: rat
  ventilation_type :: string
  volume :: rat
  temp :: rat
  pressure :: rat
  scenario_name :: string
  notes_text :: string

text \<open>
  What the widgets allow: the \<^verbatim>\<open>min_value\<close> and \<^verbatim>\<open>max_value\<close> of each
  \<^verbatim>\<open>number_input\<close>, the options of each \<^verbatim>\<open>selectbox\<close>.
\<close>

definition form_in_range :: "form \<Rightarrow> bool" where
  "form_in_range f =
     (leak_type f \<in> {Surekli, Birincil, Ikincil}
      \<and> 1 / 100 \<le> leak_rate f \<and> leak_rate f \<le> 1000
      \<and> 1 / 100 \<le> leak_duration f \<and> leak_duration f \<le> 24
      \<and> 1 / 100 \<le> ventilation_rate f \<and> ventilation_rate f \<le> 10000
      \<and> ventilation_type f \<in> {Dogal, Mekanik}
      \<and> 1 / 10 \<le> volume f \<and> volume f \<le> 10000
      \<and> - 40 \<le> temp f \<and> temp f \<le> 80
      \<and> 8 / 10 \<le> pressure f \<and> pressure f \<le> 2)"

text \<open>
  The specification's contract of a scenario (its section 3): the rates, the duration,
  the volume, the pressure and the gas's LEL are positive.
\<close>

definition valid_scenario :: "form \<Rightarrow> gas \<Rightarrow> bool" where
  "valid_scenario f g =
     (0 < leak_rate f \<and> 0 < leak_duration f \<and> 0 < ventilation_rate f
      \<and> 0 < volume f \<and> 0 < pressure f \<and> 0 < LEL g)"

text \<open>\<^verbatim>\<open>gazlar[gazlar["isim"] == gaz_adi].iloc[0]\<close>\<close>

definition iloc0 :: "'a list \<Rightarrow> error + 'a" where
  "iloc0 xs = (case xs of [] \<Rightarrow> Inl IndexError | x # _ \<Rightarrow> Inr x)"

definition resolve_gas :: "gas list \<Rightarrow> string \<Rightarrow> error + gas" where
  "resolve_gas gazlar name = iloc0 (filter (\<lambda>g. isim g = name) gazlar)"

text \<open>The dict literal of lines 66-80.\<close>

definition scenario_row :: "form \<Rightarrow> gas \<Rightarrow> pydict" where
  "scenario_row f gaz =
     [(key_Senaryo, Str (scenario_name f)),
      (key_Gaz, Str (gaz_adi f)),
      (key_Grup, Str (grup gaz)),
      (key_LEL, Num (LEL gaz)),
      (key_Kacak_Tipi, Str (leak_type f)),
      (key_Kacak_Debisi, Num (leak_rate f)),
      (key_Kacak_Suresi, Num (leak_duration f)),
      (key_Havalandirma_Debisi, Num (ventilation_rate f)),
      (key_Havalandirma_Tipi, Str (ventilation_type f)),
      (key_Hacim, Num (volume f)),
      (key_Sicaklik, Num (temp f)),
      (key_Basinc, Num (pressure f)),
      (key_Not, Str (notes_text f))]"

text \<open>
  The body of \<^verbatim>\<open>if submit:\<close> on the scenario list of the session: the new list, or
  the exception of the lookup, raised before \<^verbatim>\<open>append\<close> is reached.
\<close>

definition submit_handler :: "gas list \<Rightarrow> form \<Rightarrow> pydict list \<Rightarrow> error + pydict list" where
  "submit_handler gazlar f scenarios =
     bind (resolve_gas gazlar (gaz_adi f))
       (\<lambda>gaz. Inr (scenarios @ [scenario_row f gaz]))"

subsection \<open>The calculation (lines 84-120)\<close>

text \<open>
  The local names of \<^verbatim>\<open>calculate_zones\<close>. \<open>l_row\<close> is the argument: the dict of
  the caller, by reference. Every statement is a function from the locals to the locals
  or to the exception it raises.
\<close>

record locals =
  l_row :: pydict
  l_zone0 :: bool
  l_D :: rat
  l_base_radius :: rat
  l_zone0_radius :: rat
  l_zone1_radius :: rat
  l_zone2_radius :: rat

text \<open>On entry only \<^verbatim>\<open>row\<close> is bound; each other name is assigned before it is read.\<close>

definition enter :: "pydict \<Rightarrow> locals" where
  "enter row = \<lparr>l_row = row, l_zone0 = False, l_D = 0, l_base_radius = 0,
     l_zone0_radius = 0, l_zone1_radius = 0, l_zone2_radius = 0\<rparr>"

text \<open>Lines 86-89.\<close>

definition assign_zone0 :: "locals \<Rightarrow> error + locals" where
  "assign_zone0 l =
     bind (getitem (l_row l) key_Kacak_Tipi)
       (\<lambda>v. if v = Str Surekli then Inr (l\<lparr>l_zone0 := True\<rparr>)
            else Inr (l\<lparr>l_zone0 := False\<rparr>))"

text \<open>Line 91.\<close>

definition assign_D :: "locals \<Rightarrow> error + locals" where
  "assign_D l =
     bind (getitem (l_row l) key_Kacak_Debisi) (\<lambda>a.
     bind (getitem (l_row l) key_Havalandirma_Debisi) (\<lambda>b.
     bind (py_truediv a b) (\<lambda>d. Inr (l\<lparr>l_D := d\<rparr>))))"

text \<open>Line 92.\<close>

definition assign_base_radius :: "locals \<Rightarrow> error + locals" where
  "assign_base_radius l = Inr (l\<lparr>l_base_radius := get_zone_radius (l_D l)\<rparr>)"

text \<open>Lines 95-98.\<close>

definition correct_group :: "locals \<Rightarrow> error + locals" where
  "correct_group l =
     bind (getitem (l_row l) key_Grup) (\<lambda>g.
       if g = Str ''IIC'' then Inr (l\<lparr>l_base_radius := l_base_radius l * (12 / 10)\<rparr>)
       else bind (getitem (l_row l) key_Grup) (\<lambda>g'.
         if g' = Str ''IIB'' then Inr (l\<lparr>l_base_radius := l_base_radius l * (11 / 10)\<rparr>)
         else Inr l))"

text \<open>Lines 99-100.\<close>

definition correct_LEL :: "locals \<Rightarrow> error + locals" where
  "correct_LEL l =
     bind (getitem (l_row l) key_LEL) (\<lambda>v.
     bind (py_lt v 2) (\<lambda>b.
       if b then Inr (l\<lparr>l_base_radius := l_base_radius l * (11 / 10)\<rparr>) else Inr l))"

text \<open>Lines 103-104.\<close>

definition correct_volume :: "locals \<Rightarrow> error + locals" where
  "correct_volume l =
     bind (getitem (l_row l) key_Hacim) (\<lambda>v.
     bind (py_lt v 10) (\<lambda>b.
       if b then Inr (l\<lparr>l_base_radius := l_base_radius l * (8 / 10)\<rparr>) else Inr l))"

text \<open>Lines 105-106.\<close>

definition correct_temperature :: "locals \<Rightarrow> error + locals" where
  "correct_temperature l =
     bind (getitem (l_row l) key_Sicaklik) (\<lambda>v.
     bind (py_gt v 40) (\<lambda>b.
       if b then Inr (l\<lparr>l_base_radius := l_base_radius l * (105 / 100)\<rparr>) else Inr l))"

text \<open>Lines 107-108.\<close>

definition correct_pressure :: "locals \<Rightarrow> error + locals" where
  "correct_pressure l =
     bind (getitem (l_row l) key_Basinc) (\<lambda>v.
     bind (py_gt v (12 / 10)) (\<lambda>b.
       if b then Inr (l\<lparr>l_base_radius := l_base_radius l * (11 / 10)\<rparr>) else Inr l))"

text \<open>Lines 111-113.\<close>

definition assign_zone_radii :: "locals \<Rightarrow> error + locals" where
  "assign_zone_radii l =
     (let l1 = l\<lparr>l_zone0_radius := (if l_zone0 l then l_base_radius l * (3 / 10) else 0)\<rparr>;
          l2 = l1\<lparr>l_zone1_radius :=
                 (if \<not> l_zone0 l1 then l_base_radius l1 * (7 / 10)
                  else l_base_radius l1 * (7 / 10))\<rparr>;
          l3 = l2\<lparr>l_zone2_radius := l_base_radius l2\<rparr>
      in Inr l3)"

text \<open>The dict of the \<^verbatim>\<open>return\<close> statement, lines 115-120.\<close>

definition return_dict :: "locals \<Rightarrow> pydict" where
  "return_dict l =
     [(key_Zone0, Num (py_round (l_zone0_radius l) 2)),
      (key_Zone1, Num (py_round (l_zone1_radius l) 2)),
      (key_Zone2, Num (py_round (l_zone2_radius l) 2)),
      (key_Seyrelme, Num (py_round (l_D l) 4))]"

text \<open>Statements in sequence: the first exception ends the run.\<close>

fun run_stmts :: "(locals \<Rightarrow> error + locals) list \<Rightarrow> locals \<Rightarrow> error + locals" where
  "run_stmts [] l = Inr l"
| "run_stmts (s # ss) l = bind (s l) (run_stmts ss)"

definition calculate_zones_body :: "locals \<Rightarrow> error + locals" where
  "calculate_zones_body =
     run_stmts [assign_zone0, assign_D, assign_base_radius, correct_group, correct_LEL,
       correct_volume, correct_temperature, correct_pressure, assign_zone_radii]"

definition calculate_zones :: "pydict \<Rightarrow> error + pydict" where
  "calculate_zones row = bind (calculate_zones_body (enter row)) (\<lambda>l. Inr (return_dict l))"

text \<open>
  The specification's steps 2 to 6 in one formula, to compare the statements with: the
  fully corrected base radius \<open>R\<close> of a scenario.
\<close>

definition spec_R :: "form \<Rightarrow> gas \<Rightarrow> rat" where
  "spec_R f g =
     get_zone_radius (leak_rate f / ventilation_rate f)
     * (if grup g = ''IIC'' then 12 / 10 else if grup g = ''IIB'' then 11 / 10 else 1)
     * (if LEL g < 2 then 11 / 10 else 1)
     * (if volume f < 10 then 8 / 10 else 1)
     * (if temp f > 40 then 105 / 100 else 1)
     * (if pressure f > 12 / 10 then 11 / 10 else 1)"

subsection \<open>One run of the script: submit, then the results (lines 64-81, 161-167)\<close>

text \<open>
  The loop of lines 164-166 with its accumulator \<^verbatim>\<open>results\<close>; an exception of the
  calculator ends it.
\<close>

fun results_loop :: "pydict list \<Rightarrow> pydict list \<Rightarrow> error + pydict list" where
  "results_loop [] results = Inr results"
| "results_loop (row # rest) results =
     bind (calculate_zones row)
       (\<lambda>res. results_loop rest (results @ [dict_merge row res]))"

text \<open>The arguments of the calls of \<^verbatim>\<open>calculate_zones\<close> that loop makes, in order.\<close>

fun calculator_calls :: "pydict list \<Rightarrow> pydict list" where
  "calculator_calls [] = []"
| "calculator_calls (row # rest) =
     row # (case calculate_zones row of Inl e \<Rightarrow> [] | Inr res \<Rightarrow> calculator_calls rest)"

text \<open>
  What a record of the results is to its scenario: the scenario's items followed by the
  items of the calculator's result for it, four keys that the scenario does not hold, so
  that every key of the scenario reads the same in both.
\<close>

definition scenario_with_result :: "pydict \<Rightarrow> pydict \<Rightarrow> bool" where
  "scenario_with_result row r = (\<exists>res. calculate_zones row = Inr res
     \<and> map fst res = [key_Zone0, key_Zone1, key_Zone2, key_Seyrelme]
     \<and> set (map fst row) \<inter> set (map fst res) = {}
     \<and> r = row @ res
     \<and> (\<forall>k \<in> set (map fst row). getitem r k = getitem row k))"

text \<open>
  What one run leaves: the scenario list of the session, the exception that ended the
  run (if any), the list the data frame is built from, and the calculator's calls.
\<close>

record run =
  run_scenarios :: "pydict list"
  run_raised :: "error option"
  run_results :: "pydict list"
  run_calls :: "pydict list"

definition show_results :: "pydict list \<Rightarrow> run" where
  "show_results scenarios =
     (if scenarios = [] then
        \<lparr>run_scenarios = scenarios, run_raised = None, run_results = [], run_calls = []\<rparr>
      else
        (case results_loop scenarios [] of
           Inl e \<Rightarrow> \<lparr>run_scenarios = scenarios, run_raised = Some e, run_results = [],
                     run_calls = calculator_calls scenarios\<rparr>
         | Inr results \<Rightarrow> \<lparr>run_scenarios = scenarios, run_raised = None,
                     run_results = results, run_calls = calculator_calls scenarios\<rparr>))"

definition script_run :: "gas list \<Rightarrow> form \<Rightarrow> bool \<Rightarrow> pydict list \<Rightarrow> run" where
  "script_run gazlar f submit scenarios =
     (if submit then
        (case submit_handler gazlar f scenarios of
           Inl e \<Rightarrow> \<lparr>run_scenarios = scenarios, run_raised = Some e, run_results = [],
                     run_calls = []\<rparr>
         | Inr scenarios' \<Rightarrow> show_results scenarios')
      else show_results scenarios)"

text \<open>The clear button (lines 181-183).\<close>

definition clear_scenarios :: "pydict list \<Rightarrow> pydict list" where
  "clear_scenarios scenarios = []"

text \<open>
  The scenario lists a session can hold: empty at the start, grown by a submit of a form
  the widgets allow, emptied by the clear button.
\<close>

inductive reachable :: "gas list \<Rightarrow> pydict list \<Rightarrow> bool" for gazlar :: "gas list" where
  start: "reachable gazlar []"
| submitted: "reachable gazlar scenarios \<Longrightarrow> form_in_range f \<Longrightarrow>
     submit_handler gazlar f scenarios = Inr scenarios' \<Longrightarrow> reachable gazlar scenarios'"
| cleared: "reachable gazlar scenarios \<Longrightarrow> reachable gazlar (clear_scenarios scenarios)"

subsection \<open>The PDF download (lines 140-158, 175-179)\<close>

text \<open>
  The calls into collaborator code, in the order the button's handler reaches them: the
  FPDF calls that build the document (lines 141-154), \<^verbatim>\<open>NamedTemporaryFile\<close>,
  \<^verbatim>\<open>pdf.output\<close>, \<^verbatim>\<open>open\<close>, \<^verbatim>\<open>st.download_button\<close>, \<^verbatim>\<open>os.remove\<close>.
  Whether one of them raises, and which, is the environment's choice: the parameter
  \<open>fault\<close> names the call that raises, \<open>None\<close> when none does. The name of the
  temporary file is the environment's choice as well. The file system is the set of the
  paths that exist; what the document holds is not modelled. The handler has no
  \<^verbatim>\<open>try\<close>: an exception ends it where it is raised.
\<close>

datatype step = Build | Tempfile | Output | Open | Download | Remove

definition create_pdf_report ::
    "step option \<Rightarrow> string \<Rightarrow> string set \<Rightarrow> string set \<times> (error + string)" where
  "create_pdf_report fault tmp_name files =
     (if fault = Some Build then (files, Inl ExternalError)
      else if fault = Some Tempfile then (files, Inl ExternalError)
      else if fault = Some Output then (insert tmp_name files, Inl ExternalError)
      else (insert tmp_name files, Inr tmp_name))"

definition pdf_button ::
    "step option \<Rightarrow> string \<Rightarrow> string set \<Rightarrow> string set \<times> error option" where
  "pdf_button fault tmp_name files =
     (case create_pdf_report fault tmp_name files of
        (files1, Inl e) \<Rightarrow> (files1, Some e)
      | (files1, Inr pdf_path) \<Rightarrow>
          if fault = Some Open then (files1, Some ExternalError)
          else if fault = Some Download then (files1, Some ExternalError)
          else if fault = Some Remove then (files1, Some ExternalError)
          else (files1 - {pdf_path}, None))"

subsection \<open>The specification's first example\<close>

text \<open>
  Example 1 of the specification's section 8: group IIA, LEL 5, leak rate 10,
  ventilation rate 100, volume 100, temperature 20, pressure 1.0, continuous leak.
\<close>

definition example1_gas :: gas where
  "example1_gas = \<lparr>isim = ''Metan'', grup = ''IIA'', LEL = 5\<rparr>"

definition example1_form :: form where
  "example1_form =
     \<lparr>gaz_adi = ''Metan'', leak_type = Surekli, leak_rate = 10, leak_duration = 1,
      ventilation_rate = 100, ventilation_type = Dogal, volume = 100, temp = 20,
      pressure = 1, scenario_name = ''Senaryo 1'', notes_text = []\<rparr>"

section \<open>Properties\<close>

subsection \<open>The table lookup\<close>

lemma get_zone_radius_loop_find:
  "get_zone_radius_loop t D =
     (case find (\<lambda>r. le_limit D (D_max r)) t of None \<Rightarrow> 1 / 2 | Some r \<Rightarrow> radius r)"
  by (induction t) simp_all

lemma get_zone_radius_cases:
  "get_zone_radius D =
     (if D \<le> 1 / 100 then 1 / 2 else if D \<le> 1 / 10 then 1
      else if D \<le> 1 then 3 else if D \<le> 10 then 5 else 8)"
  by (simp add: get_zone_radius_def ZONE_RADIUS_TABLE_def)

text \<open>
  C1. The lookup visits the rows in the order of the table, smallest threshold first,
  and returns the radius of the first row whose threshold \<open>D\<close> does not exceed
  (comparison inclusive): \<open>0.5\<close> for every \<open>D \<le> 0.01\<close>, \<open>1.0\<close> for every
  \<open>0.01 < D \<le> 0.1\<close>; at \<open>D = 0.01\<close> and at \<open>D = 0.1\<close> it is the radius of that
  row (\<open>0.5\<close>, \<open>1.0\<close>), not of the next one.
\<close>

theorem get_zone_radius_first_match:
  "get_zone_radius D =
     (case find (\<lambda>r. le_limit D (D_max r)) ZONE_RADIUS_TABLE of
        None \<Rightarrow> 1 / 2 | Some r \<Rightarrow> radius r)
   \<and> map D_max ZONE_RADIUS_TABLE =
       [Finite (1 / 100), Finite (1 / 10), Finite 1, Finite 10, Infinity]
   \<and> (D \<le> 1 / 100 \<longrightarrow> get_zone_radius D = 1 / 2)
   \<and> (1 / 100 < D \<and> D \<le> 1 / 10 \<longrightarrow> get_zone_radius D = 1)
   \<and> get_zone_radius (1 / 100) = 1 / 2
   \<and> get_zone_radius (1 / 10) = 1"
proof -
  have "get_zone_radius D =
     (case find (\<lambda>r. le_limit D (D_max r)) ZONE_RADIUS_TABLE of
        None \<Rightarrow> 1 / 2 | Some r \<Rightarrow> radius r)"
    unfolding get_zone_radius_def by (rule get_zone_radius_loop_find)
  moreover have "map D_max ZONE_RADIUS_TABLE =
       [Finite (1 / 100), Finite (1 / 10), Finite 1, Finite 10, Infinity]"
    by (simp add: ZONE_RADIUS_TABLE_def)
  moreover have "D \<le> 1 / 100 \<longrightarrow> get_zone_radius D = 1 / 2"
    by (simp add: get_zone_radius_cases)
  moreover have "1 / 100 < D \<and> D \<le> 1 / 10 \<longrightarrow> get_zone_radius D = 1"
    by (simp add: get_zone_radius_cases)
  moreover have "get_zone_radius (1 / 100) = 1 / 2" "get_zone_radius (1 / 10) = 1"
    by (simp_all add: get_zone_radius_cases)
  ultimately show ?thesis by blast
qed

theorem get_zone_radius_first_match_witness:
  "(1 / 200 :: rat) \<le> 1 / 100 \<and> get_zone_radius (1 / 200) = 1 / 2
   \<and> (1 / 100 :: rat) < 1 / 20 \<and> (1 / 20 :: rat) \<le> 1 / 10 \<and> get_zone_radius (1 / 20) = 1"
  using get_zone_radius_first_match [of "1 / 200"] get_zone_radius_first_match [of "1 / 20"]
  by simp

text \<open>
  C7. The lookup is monotone: a larger dilution factor never gets a smaller base radius.
\<close>

theorem get_zone_radius_mono:
  "D1 \<le> D2 \<Longrightarrow> get_zone_radius D1 \<le> get_zone_radius D2"
  by (simp add: get_zone_radius_cases)

theorem get_zone_radius_mono_witness:
  "(1 / 20 :: rat) \<le> 5 \<and> get_zone_radius (1 / 20) \<le> get_zone_radius 5
   \<and> get_zone_radius (1 / 20) = 1 \<and> get_zone_radius 5 = 5"
  using get_zone_radius_mono [of "1 / 20" 5] by (simp add: get_zone_radius_cases)

subsection \<open>Rounding\<close>

lemma round_half_even_bounds:
  "\<lfloor>x\<rfloor> \<le> round_half_even x" "round_half_even x \<le> \<lfloor>x\<rfloor> + 1"
  by (simp_all add: round_half_even_def Let_def)

lemma round_half_even_mono:
  assumes "x \<le> y"
  shows "round_half_even x \<le> round_half_even y"
proof (cases "\<lfloor>x\<rfloor> = \<lfloor>y\<rfloor>")
  case True
  with assms have "x - of_int \<lfloor>x\<rfloor> \<le> y - of_int \<lfloor>y\<rfloor>" by simp
  with True show ?thesis
    by (simp add: round_half_even_def Let_def)
next
  case False
  with assms have "\<lfloor>x\<rfloor> + 1 \<le> \<lfloor>y\<rfloor>"
    using floor_mono [of x y] by linarith
  with round_half_even_bounds(2) [of x] round_half_even_bounds(1) [of y]
  show ?thesis by linarith
qed

lemma py_round_mono: "x \<le> y \<Longrightarrow> py_round x n \<le> py_round y n"
  by (simp add: py_round_def round_half_even_mono divide_right_mono mult_right_mono)

lemma py_round_zero: "py_round 0 n = 0"
  by (simp add: py_round_def round_half_even_def)

lemma py_round_nonneg: "0 \<le> x \<Longrightarrow> 0 \<le> py_round x n"
  using py_round_mono [of 0 x n] by (simp add: py_round_zero)

lemma round_half_even_nearest:
  assumes "of_int n - 1 / 2 < x" "x < of_int n + 1 / 2"
  shows "round_half_even x = n"
proof -
  have "\<lfloor>x\<rfloor> = n - 1 \<or> \<lfloor>x\<rfloor> = n"
  proof -
    from assms have "of_int (n - 1) \<le> x" "x < of_int (n + 1)" by simp_all
    then have "n - 1 \<le> \<lfloor>x\<rfloor>" "\<lfloor>x\<rfloor> < n + 1"
      by (simp_all only: le_floor_iff floor_less_iff)
    then show ?thesis by linarith
  qed
  then show ?thesis
  proof
    assume f: "\<lfloor>x\<rfloor> = n - 1"
    with assms have "x - of_int \<lfloor>x\<rfloor> > 1 / 2" by simp
    with f show ?thesis by (simp add: round_half_even_def Let_def)
  next
    assume f: "\<lfloor>x\<rfloor> = n"
    with assms have "x - of_int \<lfloor>x\<rfloor> < 1 / 2" by simp
    with f show ?thesis by (simp add: round_half_even_def Let_def)
  qed
qed

lemma py_round_nearest:
  assumes "of_int n - 1 / 2 < x * 10 ^ k" "x * 10 ^ k < of_int n + 1 / 2"
  shows "py_round x k = of_int n / 10 ^ k"
  using round_half_even_nearest [OF assms] by (simp add: py_round_def)

subsection \<open>The calculation on a scenario the submit handler built\<close>

lemmas key_defs = key_Senaryo_def key_Gaz_def key_Grup_def key_LEL_def key_Kacak_Tipi_def
  key_Kacak_Debisi_def key_Kacak_Suresi_def key_Havalandirma_Debisi_def
  key_Havalandirma_Tipi_def key_Hacim_def key_Sicaklik_def key_Basinc_def key_Not_def
  key_Zone0_def key_Zone1_def key_Zone2_def key_Seyrelme_def

lemma bind_simps:
  "bind (Inl e) k = Inl e" "bind (Inr x) k = k x"
  by (simp_all add: bind_def)

lemma getitem_scenario_row:
  "getitem (scenario_row f g) key_Kacak_Tipi = Inr (Str (leak_type f))"
  "getitem (scenario_row f g) key_Kacak_Debisi = Inr (Num (leak_rate f))"
  "getitem (scenario_row f g) key_Havalandirma_Debisi = Inr (Num (ventilation_rate f))"
  "getitem (scenario_row f g) key_Grup = Inr (Str (grup g))"
  "getitem (scenario_row f g) key_LEL = Inr (Num (LEL g))"
  "getitem (scenario_row f g) key_Hacim = Inr (Num (volume f))"
  "getitem (scenario_row f g) key_Sicaklik = Inr (Num (temp f))"
  "getitem (scenario_row f g) key_Basinc = Inr (Num (pressure f))"
  by (simp_all add: getitem_def scenario_row_def key_defs)

text \<open>
  The locals at the \<^verbatim>\<open>return\<close>: the corrected radius of the code is the
  specification's \<open>R\<close>.
\<close>

lemma body_scenario_row:
  "calculate_zones_body (enter (scenario_row f g)) =
     (if ventilation_rate f = 0 then Inl ZeroDivisionError
      else Inr \<lparr>l_row = scenario_row f g, l_zone0 = (leak_type f = Surekli),
        l_D = leak_rate f / ventilation_rate f, l_base_radius = spec_R f g,
        l_zone0_radius = (if leak_type f = Surekli then spec_R f g * (3 / 10) else 0),
        l_zone1_radius = spec_R f g * (7 / 10), l_zone2_radius = spec_R f g\<rparr>)"
  by (simp add: calculate_zones_body_def enter_def assign_zone0_def assign_D_def
      assign_base_radius_def correct_group_def correct_LEL_def correct_volume_def
      correct_temperature_def correct_pressure_def assign_zone_radii_def
      getitem_scenario_row bind_simps spec_R_def Let_def)

lemma calculate_zones_scenario_row:
  "calculate_zones (scenario_row f g) =
     (if ventilation_rate f = 0 then Inl ZeroDivisionError
      else Inr
        [(key_Zone0, Num (py_round (if leak_type f = Surekli then spec_R f g * (3 / 10) else 0) 2)),
         (key_Zone1, Num (py_round (spec_R f g * (7 / 10)) 2)),
         (key_Zone2, Num (py_round (spec_R f g) 2)),
         (key_Seyrelme, Num (py_round (leak_rate f / ventilation_rate f) 4))])"
  by (simp add: calculate_zones_def body_scenario_row bind_simps return_dict_def)

lemma get_zone_radius_pos: "0 < get_zone_radius D"
  by (simp add: get_zone_radius_cases)

lemma spec_R_pos: "0 < spec_R f g"
  by (simp add: spec_R_def get_zone_radius_pos)

lemma spec_R_leak_type: "spec_R (f\<lparr>leak_type := t\<rparr>) g = spec_R f g"
  by (simp add: spec_R_def)

lemma leak_types_differ: "Birincil \<noteq> Surekli" "Ikincil \<noteq> Surekli" "Birincil \<noteq> Ikincil"
  by (simp_all add: Birincil_def Ikincil_def Surekli_def)

lemma example1_result:
  "calculate_zones (scenario_row example1_form example1_gas) =
     Inr [(key_Zone0, Num (30 / 100)), (key_Zone1, Num (70 / 100)), (key_Zone2, Num 1),
          (key_Seyrelme, Num (1000 / 10000))]"
  by code_simp

text \<open>
  The rounded radii of the specification's second example do not hang on the last digits
  of the product: every value within \<open>0.001\<close> of \<open>5.544\<close> rounds as \<open>5.544\<close> does.
\<close>

lemma example2_rounding_robust:
  fixes r :: rat
  assumes "\<bar>r - 5544 / 1000\<bar> < 1 / 1000"
  shows "py_round r 2 = 554 / 100" "py_round (r * (7 / 10)) 2 = 388 / 100"
proof -
  from assms have "5543 / 1000 < r" "r < 5545 / 1000" by linarith+
  then have "of_int 554 - 1 / 2 < r * 10 ^ 2" "r * 10 ^ 2 < of_int 554 + 1 / 2"
    "of_int 388 - 1 / 2 < r * (7 / 10) * 10 ^ 2" "r * (7 / 10) * 10 ^ 2 < of_int 388 + 1 / 2"
    by simp_all
  then show "py_round r 2 = 554 / 100" "py_round (r * (7 / 10)) 2 = 388 / 100"
    using py_round_nearest [of 554 r 2] py_round_nearest [of 388 "r * (7 / 10)" 2] by simp_all
qed


text \<open>
  C3. For every valid scenario, one whose rates, duration, volume, pressure and LEL are
  positive, the calculator returns a result, and in it the radius of zone 0 is at most
  that of zone 1, which is at most that of zone 2.
\<close>

theorem zone_radii_ordered:
  assumes "valid_scenario f g"
  shows "\<exists>z0 z1 z2 d.
     calculate_zones (scenario_row f g) =
       Inr [(key_Zone0, Num z0), (key_Zone1, Num z1), (key_Zone2, Num z2), (key_Seyrelme, Num d)]
     \<and> 0 \<le> z0 \<and> z0 \<le> z1 \<and> z1 \<le> z2"
proof -
  let ?R = "spec_R f g"
  let ?r0 = "if leak_type f = Surekli then ?R * (3 / 10) else 0"
  from assms have v: "ventilation_rate f \<noteq> 0"
    by (simp add: valid_scenario_def)
  have R: "0 < ?R" by (rule spec_R_pos)
  then have "0 \<le> ?r0" "?r0 \<le> ?R * (7 / 10)" "?R * (7 / 10) \<le> ?R"
    by simp_all
  then have "0 \<le> py_round ?r0 2" "py_round ?r0 2 \<le> py_round (?R * (7 / 10)) 2"
    "py_round (?R * (7 / 10)) 2 \<le> py_round ?R 2"
    by (simp_all only: py_round_nonneg py_round_mono)
  with v show ?thesis
    by (simp only: calculate_zones_scenario_row if_False) blast
qed

theorem zone_radii_ordered_witness:
  "valid_scenario example1_form example1_gas
   \<and> (\<exists>z0 z1 z2 d.
     calculate_zones (scenario_row example1_form example1_gas) =
       Inr [(key_Zone0, Num z0), (key_Zone1, Num z1), (key_Zone2, Num z2), (key_Seyrelme, Num d)]
     \<and> 0 \<le> z0 \<and> z0 \<le> z1 \<and> z1 \<le> z2)"
proof -
  have v: "valid_scenario example1_form example1_gas"
    by (simp add: valid_scenario_def example1_form_def example1_gas_def)
  from v zone_radii_ordered [OF v] show ?thesis by (rule conjI)
qed

text \<open>
  C4. Two scenarios that differ in the leak type only (\<open>f\<close> and \<open>f\<close> with another leak
  type \<open>t\<close>, same gas) get the same corrected radius \<open>R\<close>, the same zone 1 and zone 2
  radii and the same dilution factor. The zone 0 radius is \<open>0.3 \<times> R\<close> for a continuous
  leak (\<open>Surekli\<close>) and \<open>0\<close> for any other, so for a primary (\<open>Birincil\<close>) and a
  secondary (\<open>Ikincil\<close>) one; the returned field is that value rounded to two decimals,
  exactly \<open>0\<close> in the latter case.
\<close>

theorem leak_type_gates_zone0_only:
  assumes "ventilation_rate f \<noteq> 0"
  shows "\<exists>l l' z0 z0' z1 z2 d.
     calculate_zones_body (enter (scenario_row f g)) = Inr l
     \<and> calculate_zones_body (enter (scenario_row (f\<lparr>leak_type := t\<rparr>) g)) = Inr l'
     \<and> l_base_radius l' = l_base_radius l
     \<and> l_zone1_radius l' = l_zone1_radius l
     \<and> l_zone2_radius l' = l_zone2_radius l
     \<and> l_zone0_radius l = (if leak_type f = Surekli then l_base_radius l * (3 / 10) else 0)
     \<and> calculate_zones (scenario_row f g) =
         Inr [(key_Zone0, Num z0), (key_Zone1, Num z1), (key_Zone2, Num z2), (key_Seyrelme, Num d)]
     \<and> calculate_zones (scenario_row (f\<lparr>leak_type := t\<rparr>) g) =
         Inr [(key_Zone0, Num z0'), (key_Zone1, Num z1), (key_Zone2, Num z2), (key_Seyrelme, Num d)]
     \<and> z0 = py_round (l_zone0_radius l) 2
     \<and> (leak_type f = Birincil \<or> leak_type f = Ikincil \<longrightarrow> z0 = 0)"
  using assms
  by (auto simp: body_scenario_row calculate_zones_scenario_row spec_R_leak_type
      py_round_zero leak_types_differ)

theorem leak_type_gates_zone0_only_witness:
  "ventilation_rate example1_form \<noteq> 0
   \<and> leak_type (example1_form\<lparr>leak_type := Birincil\<rparr>) = Birincil
   \<and> calculate_zones (scenario_row example1_form example1_gas) =
       Inr [(key_Zone0, Num (30 / 100)), (key_Zone1, Num (70 / 100)), (key_Zone2, Num 1),
            (key_Seyrelme, Num (1000 / 10000))]
   \<and> (\<exists>z1 z2 d.
       calculate_zones (scenario_row (example1_form\<lparr>leak_type := Birincil\<rparr>) example1_gas) =
         Inr [(key_Zone0, Num 0), (key_Zone1, Num z1), (key_Zone2, Num z2), (key_Seyrelme, Num d)]
       \<and> calculate_zones (scenario_row example1_form example1_gas) =
         Inr [(key_Zone0, Num (30 / 100)), (key_Zone1, Num z1), (key_Zone2, Num z2),
              (key_Seyrelme, Num d)])"
proof -
  have v: "ventilation_rate (example1_form\<lparr>leak_type := Birincil\<rparr>) \<noteq> 0"
    by (simp add: example1_form_def)
  have b: "leak_type (example1_form\<lparr>leak_type := Birincil\<rparr>) = Birincil"
    by simp
  have same: "example1_form\<lparr>leak_type := Birincil\<rparr>\<lparr>leak_type := Surekli\<rparr> = example1_form"
    by (simp add: example1_form_def)
  from leak_type_gates_zone0_only [OF v, of example1_gas Surekli] b same example1_result
  show ?thesis
    by (auto simp: example1_form_def)
qed

text \<open>
  C6. The division of line 91 raises \<open>ZeroDivisionError\<close> exactly when the divisor is
  zero, and so does the calculator on a scenario: exactly when the ventilation rate is
  zero. With a positive ventilation rate, so on every valid scenario, the calculator
  returns a result.
\<close>

theorem division_by_zero_iff:
  "(py_truediv (Num a) (Num b) = Inl ZeroDivisionError \<longleftrightarrow> b = 0)
   \<and> (calculate_zones (scenario_row f g) = Inl ZeroDivisionError \<longleftrightarrow> ventilation_rate f = 0)
   \<and> (0 < ventilation_rate f \<longrightarrow> (\<exists>res. calculate_zones (scenario_row f g) = Inr res))
   \<and> (valid_scenario f g \<longrightarrow> (\<exists>res. calculate_zones (scenario_row f g) = Inr res))"
  by (simp add: calculate_zones_scenario_row valid_scenario_def)

theorem division_by_zero_iff_witness:
  "0 < ventilation_rate example1_form
   \<and> valid_scenario example1_form example1_gas
   \<and> (\<exists>res. calculate_zones (scenario_row example1_form example1_gas) = Inr res)
   \<and> ventilation_rate (example1_form\<lparr>ventilation_rate := 0\<rparr>) = 0
   \<and> calculate_zones (scenario_row (example1_form\<lparr>ventilation_rate := 0\<rparr>) example1_gas)
       = Inl ZeroDivisionError"
  using division_by_zero_iff [of 10 100 example1_form example1_gas]
    division_by_zero_iff [of 10 0 "example1_form\<lparr>ventilation_rate := 0\<rparr>" example1_gas]
  by (simp add: example1_form_def example1_gas_def valid_scenario_def)

subsection \<open>The calculator leaves its argument alone\<close>






subsection \<open>The submit handler and the scenario lists of a session\<close>

lemma resolve_gas_unknown:
  "name \<notin> isim ` set gazlar \<Longrightarrow> resolve_gas gazlar name = Inl IndexError"
proof -
  assume "name \<notin> isim ` set gazlar"
  then have "filter (\<lambda>g. isim g = name) gazlar = []"
    by (auto simp: filter_empty_conv)
  then show ?thesis by (simp add: resolve_gas_def iloc0_def)
qed

lemma resolve_gas_Inr:
  "resolve_gas gazlar name = Inr g \<Longrightarrow> g \<in> set gazlar \<and> isim g = name"
proof -
  assume "resolve_gas gazlar name = Inr g"
  then obtain rest where "filter (\<lambda>g. isim g = name) gazlar = g # rest"
    by (auto simp: resolve_gas_def iloc0_def split: list.splits)
  then have "g \<in> set (filter (\<lambda>g. isim g = name) gazlar)" by simp
  then show ?thesis by simp
qed

lemma submit_handler_Inr:
  "submit_handler gazlar f scenarios = Inr scenarios' \<Longrightarrow>
   \<exists>g. g \<in> set gazlar \<and> isim g = gaz_adi f \<and> scenarios' = scenarios @ [scenario_row f g]"
  by (auto simp: submit_handler_def bind_def split: sum.splits dest: resolve_gas_Inr)

lemma reachable_rows:
  "reachable gazlar scenarios \<Longrightarrow> row \<in> set scenarios \<Longrightarrow>
   \<exists>f g. row = scenario_row f g \<and> form_in_range f \<and> g \<in> set gazlar \<and> isim g = gaz_adi f"
proof (induction arbitrary: row rule: reachable.induct)
  case start
  then show ?case by simp
next
  case (submitted scenarios f scenarios')
  from submit_handler_Inr [OF submitted.hyps(3)] obtain g where
    g: "g \<in> set gazlar" "isim g = gaz_adi f" "scenarios' = scenarios @ [scenario_row f g]"
    by blast
  with submitted.prems have "row \<in> set scenarios \<or> row = scenario_row f g" by auto
  then show ?case
    using submitted.IH submitted.hyps(2) g by blast
next
  case (cleared scenarios)
  then show ?case by (simp add: clear_scenarios_def)
qed

lemma getitem_Gaz: "getitem (scenario_row f g) key_Gaz = Inr (Str (gaz_adi f))"
  by (simp add: getitem_def scenario_row_def key_defs)

lemma submitted_rows:
  assumes "reachable gazlar scenarios" "submit_handler gazlar f scenarios = Inr scenarios'"
    "row \<in> set scenarios'"
  shows "\<exists>f g. row = scenario_row f g \<and> g \<in> set gazlar \<and> isim g = gaz_adi f"
proof -
  from submit_handler_Inr [OF assms(2)] obtain g where
    g: "g \<in> set gazlar" "isim g = gaz_adi f" "scenarios' = scenarios @ [scenario_row f g]"
    by blast
  with assms(3) have "row \<in> set scenarios \<or> row = scenario_row f g" by auto
  then show ?thesis
    using reachable_rows [OF assms(1)] g by blast
qed

lemma calculator_calls_subset: "set (calculator_calls scenarios) \<subseteq> set scenarios"
  by (induction scenarios) (auto split: sum.splits)

lemma show_results_calls: "set (run_calls (show_results scenarios)) \<subseteq> set scenarios"
  using calculator_calls_subset [of scenarios]
  by (simp add: show_results_def split: sum.splits)

lemma script_run_calls:
  assumes "reachable gazlar scenarios" "row \<in> set (run_calls (script_run gazlar f b scenarios))"
  shows "\<exists>f g. row = scenario_row f g \<and> g \<in> set gazlar \<and> isim g = gaz_adi f"
proof (cases "b \<and> (\<exists>s'. submit_handler gazlar f scenarios = Inr s')")
  case True
  then obtain s' where s': "submit_handler gazlar f scenarios = Inr s'" by blast
  with True assms(2) have "row \<in> set (run_calls (show_results s'))"
    by (simp add: script_run_def)
  with show_results_calls have "row \<in> set s'" by blast
  from submitted_rows [OF assms(1) s' this] show ?thesis .
next
  case False
  with assms(2) have "row \<in> set (run_calls (show_results scenarios))"
    by (cases b; cases "submit_handler gazlar f scenarios") (simp_all add: script_run_def)
  with show_results_calls have "row \<in> set scenarios" by blast
  from reachable_rows [OF assms(1) this] show ?thesis by blast
qed

lemma form_in_range_ventilation: "form_in_range f \<Longrightarrow> ventilation_rate f \<noteq> 0"
  by (auto simp: form_in_range_def)

lemma example1_reachable:
  "reachable [example1_gas] [scenario_row example1_form example1_gas]"
proof -
  have "form_in_range example1_form"
    by (simp add: form_in_range_def example1_form_def)
  moreover have "submit_handler [example1_gas] example1_form [] =
      Inr [scenario_row example1_form example1_gas]"
    by (simp add: submit_handler_def resolve_gas_def iloc0_def bind_simps
        example1_form_def example1_gas_def)
  ultimately show ?thesis
    using reachable.start reachable.submitted by blast
qed

text \<open>
  C5. For a gas name that is in no row of the gas table, the lookup of the submit handler
  raises \<open>IndexError\<close> (from \<^verbatim>\<open>.iloc[0]\<close>; the specification's NotFoundError).
  A run that submits a form with that name ends there: the scenario list of the session is
  what it was, nothing is displayed and the calculator is not called. And whatever form a
  run submits, in a session the script can reach the calculator is never called on a
  scenario of that gas.
\<close>

theorem unknown_gas_rejected:
  assumes "name \<notin> isim ` set gazlar"
  shows "resolve_gas gazlar name = Inl IndexError
     \<and> (gaz_adi f = name \<longrightarrow>
          submit_handler gazlar f scenarios = Inl IndexError
          \<and> script_run gazlar f True scenarios =
              \<lparr>run_scenarios = scenarios, run_raised = Some IndexError, run_results = [],
               run_calls = []\<rparr>)
     \<and> (reachable gazlar scenarios \<longrightarrow>
          (\<forall>row \<in> set (run_calls (script_run gazlar f b scenarios)).
             getitem row key_Gaz \<noteq> Inr (Str name)))"
proof -
  have r: "resolve_gas gazlar name = Inl IndexError"
    by (rule resolve_gas_unknown [OF assms])
  have "getitem row key_Gaz \<noteq> Inr (Str name)"
    if "reachable gazlar scenarios" "row \<in> set (run_calls (script_run gazlar f b scenarios))"
    for row
  proof -
    from script_run_calls [OF that] obtain f' g where
      fg: "row = scenario_row f' g" "g \<in> set gazlar" "isim g = gaz_adi f'" by blast
    from fg(2) have "isim g \<in> isim ` set gazlar" by (rule imageI)
    with assms fg(3) have "gaz_adi f' \<noteq> name" by auto
    with fg(1) show ?thesis by (simp add: getitem_Gaz)
  qed
  with r show ?thesis
    by (auto simp: submit_handler_def script_run_def bind_simps)
qed

theorem unknown_gas_rejected_witness:
  "''Argon'' \<notin> isim ` set [example1_gas]
   \<and> gaz_adi (example1_form\<lparr>gaz_adi := ''Argon''\<rparr>) = ''Argon''
   \<and> script_run [example1_gas] (example1_form\<lparr>gaz_adi := ''Argon''\<rparr>) True
        [scenario_row example1_form example1_gas] =
      \<lparr>run_scenarios = [scenario_row example1_form example1_gas],
       run_raised = Some IndexError, run_results = [], run_calls = []\<rparr>
   \<and> reachable [example1_gas] [scenario_row example1_form example1_gas]
   \<and> run_calls (script_run [example1_gas] example1_form False
        [scenario_row example1_form example1_gas]) = [scenario_row example1_form example1_gas]
   \<and> getitem (scenario_row example1_form example1_gas) key_Gaz \<noteq> Inr (Str ''Argon'')"
proof -
  have n: "''Argon'' \<notin> isim ` set [example1_gas]"
    by (simp add: example1_gas_def)
  have g: "gaz_adi (example1_form\<lparr>gaz_adi := ''Argon''\<rparr>) = ''Argon''"
    by simp
  have c: "run_calls (script_run [example1_gas] example1_form False
        [scenario_row example1_form example1_gas]) = [scenario_row example1_form example1_gas]"
    by (simp add: script_run_def show_results_def example1_result bind_simps
        split: sum.splits)
  from unknown_gas_rejected [OF n, of "example1_form\<lparr>gaz_adi := ''Argon''\<rparr>"
      "[scenario_row example1_form example1_gas]" False]
    unknown_gas_rejected [OF n, of example1_form
      "[scenario_row example1_form example1_gas]" False]
    n g c example1_reachable
  show ?thesis by simp
qed

subsection \<open>The records of the results loop\<close>

lemma setitem_fresh: "k \<notin> fst ` set d \<Longrightarrow> setitem d k v = d @ [(k, v)]"
  by (induction d) auto

lemma dict_merge_disjoint:
  "distinct (map fst b) \<Longrightarrow> fst ` set a \<inter> fst ` set b = {} \<Longrightarrow> dict_merge a b = a @ b"
  unfolding dict_merge_def
proof (induction b arbitrary: a)
  case Nil
  then show ?case by simp
next
  case (Cons kv b)
  obtain k v where kv: "kv = (k, v)" by (cases kv)
  from Cons.prems kv have fresh: "k \<notin> fst ` set a" by auto
  from Cons.prems kv have "distinct (map fst b)"
    and "fst ` set (a @ [(k, v)]) \<inter> fst ` set b = {}" by auto
  from Cons.IH [OF this] show ?case
    by (simp add: kv setitem_fresh [OF fresh])
qed

lemma getitem_append_left:
  "k \<in> fst ` set a \<Longrightarrow> getitem (a @ b) k = getitem a k"
proof -
  assume "k \<in> fst ` set a"
  then obtain v where "map_of a k = Some v"
    by (metis domD dom_map_of_conv_image_fst)
  then show ?thesis by (simp add: getitem_def map_add_Some_iff)
qed

lemma result_keys:
  "calculate_zones (scenario_row f g) = Inr res \<Longrightarrow>
   map fst res = [key_Zone0, key_Zone1, key_Zone2, key_Seyrelme]"
  by (auto simp: calculate_zones_scenario_row split: if_splits)

lemma scenario_row_keys:
  "map fst (scenario_row f g) =
     [key_Senaryo, key_Gaz, key_Grup, key_LEL, key_Kacak_Tipi, key_Kacak_Debisi,
      key_Kacak_Suresi, key_Havalandirma_Debisi, key_Havalandirma_Tipi, key_Hacim,
      key_Sicaklik, key_Basinc, key_Not]"
  by (simp add: scenario_row_def)

lemma keys_disjoint:
  "set [key_Senaryo, key_Gaz, key_Grup, key_LEL, key_Kacak_Tipi, key_Kacak_Debisi,
      key_Kacak_Suresi, key_Havalandirma_Debisi, key_Havalandirma_Tipi, key_Hacim,
      key_Sicaklik, key_Basinc, key_Not]
   \<inter> set [key_Zone0, key_Zone1, key_Zone2, key_Seyrelme] = {}"
  "distinct [key_Zone0, key_Zone1, key_Zone2, key_Seyrelme]"
  by (simp_all add: key_defs)

lemma merge_scenario_row:
  assumes "calculate_zones (scenario_row f g) = Inr res"
  shows "dict_merge (scenario_row f g) res = scenario_row f g @ res"
proof -
  have k: "map fst res = [key_Zone0, key_Zone1, key_Zone2, key_Seyrelme]"
    by (rule result_keys [OF assms])
  have "fst ` set (scenario_row f g) = set (map fst (scenario_row f g))"
    "fst ` set res = set (map fst res)" by simp_all
  then have "fst ` set (scenario_row f g) \<inter> fst ` set res = {}"
    by (simp only: scenario_row_keys k keys_disjoint)
  moreover have "distinct (map fst res)"
    by (simp only: k keys_disjoint)
  ultimately show ?thesis by (simp only: dict_merge_disjoint)
qed

lemma scenario_with_result_scenario_row:
  assumes "calculate_zones (scenario_row f g) = Inr res"
  shows "scenario_with_result (scenario_row f g) (dict_merge (scenario_row f g) res)"
proof -
  have k: "map fst res = [key_Zone0, key_Zone1, key_Zone2, key_Seyrelme]"
    by (rule result_keys [OF assms])
  have d: "set (map fst (scenario_row f g)) \<inter> set (map fst res) = {}"
    by (simp only: scenario_row_keys k keys_disjoint)
  have "\<forall>k \<in> set (map fst (scenario_row f g)).
      getitem (scenario_row f g @ res) k = getitem (scenario_row f g) k"
    by (simp add: getitem_append_left del: map_of_append)
  with assms k d show ?thesis
    unfolding scenario_with_result_def merge_scenario_row [OF assms]
    by (intro exI [of _ res] conjI refl)
qed

lemma results_loop_scenario_with_result:
  assumes "\<forall>row \<in> set scenarios. \<exists>f g. row = scenario_row f g \<and> ventilation_rate f \<noteq> 0"
  shows "\<exists>rs. results_loop scenarios acc = Inr (acc @ rs) \<and> list_all2 scenario_with_result scenarios rs"
  using assms
proof (induction scenarios arbitrary: acc)
  case Nil
  then show ?case by simp
next
  case (Cons row rest)
  then obtain f g where row: "row = scenario_row f g" and v: "ventilation_rate f \<noteq> 0"
    by auto
  from v obtain res where res: "calculate_zones (scenario_row f g) = Inr res"
    by (simp add: calculate_zones_scenario_row)
  from Cons.prems have "\<forall>row \<in> set rest. \<exists>f g. row = scenario_row f g \<and> ventilation_rate f \<noteq> 0"
    by simp
  from Cons.IH [OF this, of "acc @ [dict_merge row res]"] obtain rs where
    rs: "results_loop rest (acc @ [dict_merge row res]) = Inr ((acc @ [dict_merge row res]) @ rs)"
      "list_all2 scenario_with_result rest rs" by blast
  have "results_loop (row # rest) acc = Inr (acc @ (dict_merge row res # rs))"
    using rs(1) res by (simp add: row bind_simps)
  moreover have "list_all2 scenario_with_result (row # rest) (dict_merge row res # rs)"
    using rs(2) scenario_with_result_scenario_row [OF res] by (simp add: row)
  ultimately show ?case by blast
qed

text \<open>
  C10. In a session the script can reach, the results loop returns one record for each
  stored scenario, in order: the items of the scenario, unchanged and in place, followed
  by the four items of its result. The two sets of keys are disjoint, so every key of the
  scenario reads in the record what it reads in the scenario. The run leaves the stored
  list as it found it.
\<close>

theorem results_keep_scenarios:
  assumes "reachable gazlar scenarios"
  shows "\<exists>results. results_loop scenarios [] = Inr results
     \<and> list_all2 scenario_with_result scenarios results
     \<and> run_results (script_run gazlar f False scenarios) = results
     \<and> run_raised (script_run gazlar f False scenarios) = None
     \<and> run_scenarios (script_run gazlar f False scenarios) = scenarios"
proof -
  have "\<forall>row \<in> set scenarios. \<exists>f g. row = scenario_row f g \<and> ventilation_rate f \<noteq> 0"
    using reachable_rows [OF assms] form_in_range_ventilation by blast
  from results_loop_scenario_with_result [OF this, of "[]"] obtain rs where
    rs: "results_loop scenarios [] = Inr rs" "list_all2 scenario_with_result scenarios rs" by auto
  then show ?thesis
    by (cases "scenarios = []") (auto simp: script_run_def show_results_def)
qed

theorem results_keep_scenarios_witness:
  "reachable [example1_gas] [scenario_row example1_form example1_gas]
   \<and> (\<exists>r. results_loop [scenario_row example1_form example1_gas] [] = Inr [r]
        \<and> scenario_with_result (scenario_row example1_form example1_gas) r
        \<and> map fst r = map fst (scenario_row example1_form example1_gas)
             @ [key_Zone0, key_Zone1, key_Zone2, key_Seyrelme]
        \<and> run_scenarios (script_run [example1_gas] example1_form False
             [scenario_row example1_form example1_gas])
           = [scenario_row example1_form example1_gas])"
proof -
  from results_keep_scenarios [OF example1_reachable, of example1_form]
  obtain results where
    rs: "results_loop [scenario_row example1_form example1_gas] [] = Inr results"
      "list_all2 scenario_with_result [scenario_row example1_form example1_gas] results"
      "run_scenarios (script_run [example1_gas] example1_form False
             [scenario_row example1_form example1_gas])
           = [scenario_row example1_form example1_gas]"
    by blast
  from rs(2) obtain r where r: "results = [r]" "scenario_with_result (scenario_row example1_form example1_gas) r"
    by (auto simp: list_all2_Cons1)
  from r(2) have "map fst r = map fst (scenario_row example1_form example1_gas)
             @ [key_Zone0, key_Zone1, key_Zone2, key_Seyrelme]"
    by (auto simp: scenario_with_result_def)
  with rs r example1_reachable show ?thesis by blast
qed

subsection \<open>The temporary file of the PDF download\<close>

text \<open>
  C9, as amended. With a fresh name for the temporary file: when no call raises, the
  handler leaves the file system as it found it, the temporary file removed; when the
  document cannot be built or the temporary file cannot be created, no temporary file
  exists. Nothing is stated for a run in which \<^verbatim>\<open>pdf.output\<close>, \<^verbatim>\<open>open\<close>,
  \<^verbatim>\<open>st.download_button\<close> or \<^verbatim>\<open>os.remove\<close> raises.
\<close>

theorem pdf_button_removes_on_success:
  assumes "tmp_name \<notin> files"
  shows "pdf_button None tmp_name files = (files, None)
     \<and> (fault \<in> {Some Build, Some Tempfile} \<longrightarrow>
          pdf_button fault tmp_name files = (files, Some ExternalError))"
  using assms by (auto simp: pdf_button_def create_pdf_report_def)

theorem pdf_button_removes_on_success_witness:
  "''/tmp/tmpab12.pdf'' \<notin> {''/tmp/other.txt''}
   \<and> pdf_button None ''/tmp/tmpab12.pdf'' {''/tmp/other.txt''} = ({''/tmp/other.txt''}, None)
   \<and> Some Build \<in> {Some Build, Some Tempfile}
   \<and> pdf_button (Some Build) ''/tmp/tmpab12.pdf'' {''/tmp/other.txt''}
       = ({''/tmp/other.txt''}, Some ExternalError)"
proof -
  have n: "''/tmp/tmpab12.pdf'' \<notin> {''/tmp/other.txt''}" by simp
  from pdf_button_removes_on_success [OF n, of "Some Build"] n show ?thesis by simp
qed

text \<open>
  The claim as stated, that no temporary file remains on any path, fails: when
  \<^verbatim>\<open>pdf.output\<close> raises, or \<^verbatim>\<open>st.download_button\<close> does, the handler ends before
  \<^verbatim>\<open>os.remove\<close> and the file stays.
\<close>

theorem pdf_button_leaves_file:
  "''/tmp/tmpab12.pdf'' \<notin> {}
   \<and> pdf_button (Some Output) ''/tmp/tmpab12.pdf'' {} = ({''/tmp/tmpab12.pdf''}, Some ExternalError)
   \<and> ''/tmp/tmpab12.pdf'' \<in> fst (pdf_button (Some Output) ''/tmp/tmpab12.pdf'' {})
   \<and> ''/tmp/tmpab12.pdf'' \<in> fst (pdf_button (Some Download) ''/tmp/tmpab12.pdf'' {})"
  by (simp add: pdf_button_def create_pdf_report_def)

end
